theory Spec2Isabelle
  imports
    Main
    "HOL-Library.Char_ord"
    "HOL-Library.List_Lexorder"
    "HOL-Library.AList"
    "HOL-Library.Multiset"
begin

text \<open>
  A model of the LC\_Fetch scripts: the contest ranking scraper, the two bulk
  fetchers that read user slugs from a CSV file and query the GraphQL endpoint, and
  the writer of a single profile. The browser, the network and the order in which
  the thread pool hands back its futures are parameters; everything the scripts
  compute from them is defined here and the statements about the scripts are proved
  from these definitions.
\<close>

section \<open>Python values, exceptions and dictionaries\<close>

text \<open>
  The scripts handle decoded JSON and CSV cells, all dynamically typed. A value is
  \<^verbatim>\<open>None\<close>, a boolean, an integer, a string, a list or a \<^verbatim>\<open>dict\<close> with string
  keys (JSON numbers are taken to be integers: no script computes with them). A
  string is a list of code points below 256, ordered as Python orders \<^verbatim>\<open>str\<close>:
  lexicographically by code point, a proper prefix first.

  A \<^verbatim>\<open>dict\<close> keeps its keys in insertion order, and that order is what
  \<^verbatim>\<open>keys()\<close>, \<^verbatim>\<open>items()\<close> and \<^verbatim>\<open>{**a, **b}\<close> show: it is an association list with
  distinct keys. Assigning to an existing key keeps the key's position; a new key
  goes to the end.
\<close>

type_synonym 'v dict = "(string \<times> 'v) list"

datatype json =
    JNull
  | JBool bool
  | JInt int
  | JStr string
  | JList "json list"
  | JObj "(string \<times> json) list"

definition keys :: "'v dict \<Rightarrow> string list" where
  "keys d = map fst d"

definition get :: "'v dict \<Rightarrow> string \<Rightarrow> 'v \<Rightarrow> 'v" where
  \<comment> \<open>\<^verbatim>\<open>d.get(k, default)\<close> on a \<^verbatim>\<open>dict\<close>\<close>
  "get d k dflt = (case map_of d k of None \<Rightarrow> dflt | Some v \<Rightarrow> v)"

definition setitem :: "'v dict \<Rightarrow> string \<Rightarrow> 'v \<Rightarrow> 'v dict" where
  \<comment> \<open>\<^verbatim>\<open>d[k] = v\<close>\<close>
  "setitem d k v = AList.update k v d"

definition dict_merge :: "'v dict \<Rightarrow> 'v dict \<Rightarrow> 'v dict" where
  \<comment> \<open>\<^verbatim>\<open>{**a, **b}\<close>: the items of \<open>a\<close>, then each item of \<open>b\<close> assigned in turn\<close>
  "dict_merge a b = fold (\<lambda>(k, v) d. setitem d k v) b a"

text \<open>
  An exception is a value: a computation that may raise returns \<open>Inl\<close> of the
  exception or \<open>Inr\<close> of its result, and \<open>and_then\<close> runs the next statement
  only when the one before returned. The classes are told apart as far as a handler
  of the scripts does: \<^verbatim>\<open>RequestException\<close> is the one class that
  \<^verbatim>\<open>fetch_leetcode_user_data\<close> catches.
\<close>

datatype py_exception =
    AttributeError
  | TypeError
  | KeyError
  | ValueError
  | RequestException

definition and_then :: "'e + 'a \<Rightarrow> ('a \<Rightarrow> 'e + 'b) \<Rightarrow> 'e + 'b" where
  "and_then m f = (case m of Inl e \<Rightarrow> Inl e | Inr x \<Rightarrow> f x)"

fun map_raising :: "('a \<Rightarrow> 'e + 'b) \<Rightarrow> 'a list \<Rightarrow> 'e + 'b list" where
  \<comment> \<open>a comprehension or loop that builds a list, stopped by the first exception\<close>
  "map_raising f [] = Inr []"
| "map_raising f (x # xs) =
     (case f x of
        Inl e \<Rightarrow> Inl e
      | Inr y \<Rightarrow> (case map_raising f xs of Inl e \<Rightarrow> Inl e | Inr ys \<Rightarrow> Inr (y # ys)))"

fun fold_raising :: "('a \<Rightarrow> 's \<Rightarrow> 'e + 's) \<Rightarrow> 'a list \<Rightarrow> 's \<Rightarrow> 'e + 's" where
  \<comment> \<open>a loop that updates a variable, stopped by the first exception\<close>
  "fold_raising f [] s = Inr s"
| "fold_raising f (x # xs) s =
     (case f x s of Inl e \<Rightarrow> Inl e | Inr s' \<Rightarrow> fold_raising f xs s')"

text \<open>The operations of Python the scripts apply to such values.\<close>

definition truthy :: "json \<Rightarrow> bool" where
  \<comment> \<open>the value in a condition: \<^verbatim>\<open>if v:\<close>\<close>
  "truthy v =
     (case v of
        JNull \<Rightarrow> False
      | JBool b \<Rightarrow> b
      | JInt n \<Rightarrow> n \<noteq> 0
      | JStr s \<Rightarrow> s \<noteq> []
      | JList xs \<Rightarrow> xs \<noteq> []
      | JObj kvs \<Rightarrow> kvs \<noteq> [])"

definition as_dict :: "json \<Rightarrow> py_exception + json dict" where
  \<comment> \<open>the receiver of \<^verbatim>\<open>.get\<close> or \<^verbatim>\<open>.items\<close>: only a \<^verbatim>\<open>dict\<close> has these attributes\<close>
  "as_dict v = (case v of JObj kvs \<Rightarrow> Inr kvs | _ \<Rightarrow> Inl AttributeError)"

fun starts_with :: "string \<Rightarrow> string \<Rightarrow> bool" where
  "starts_with [] s = True"
| "starts_with (c # cs) [] = False"
| "starts_with (c # cs) (d # ds) = (c = d \<and> starts_with cs ds)"

fun substring :: "string \<Rightarrow> string \<Rightarrow> bool" where
  "substring t [] = (t = [])"
| "substring t (d # ds) = (starts_with t (d # ds) \<or> substring t ds)"

definition py_in :: "string \<Rightarrow> json \<Rightarrow> py_exception + bool" where
  \<comment> \<open>\<^verbatim>\<open>k in v\<close> for a string \<open>k\<close>\<close>
  "py_in k v =
     (case v of
        JObj kvs \<Rightarrow> Inr (k \<in> set (keys kvs))
      | JList xs \<Rightarrow> Inr (JStr k \<in> set xs)
      | JStr s \<Rightarrow> Inr (substring k s)
      | _ \<Rightarrow> Inl TypeError)"

definition py_index :: "json \<Rightarrow> string \<Rightarrow> py_exception + json" where
  \<comment> \<open>\<^verbatim>\<open>v[k]\<close> for a string \<open>k\<close>\<close>
  "py_index v k =
     (case v of
        JObj kvs \<Rightarrow> (case map_of kvs k of None \<Rightarrow> Inl KeyError | Some x \<Rightarrow> Inr x)
      | _ \<Rightarrow> Inl TypeError)"

definition py_iter :: "json \<Rightarrow> py_exception + json list" where
  \<comment> \<open>\<^verbatim>\<open>for x in v\<close>: the elements of a list, the keys of a \<^verbatim>\<open>dict\<close>, the characters of a string\<close>
  "py_iter v =
     (case v of
        JList xs \<Rightarrow> Inr xs
      | JObj kvs \<Rightarrow> Inr (map JStr (keys kvs))
      | JStr s \<Rightarrow> Inr (map (\<lambda>c. JStr [c]) s)
      | _ \<Rightarrow> Inl TypeError)"

definition py_len :: "json \<Rightarrow> py_exception + nat" where
  "py_len v =
     (case v of
        JList xs \<Rightarrow> Inr (length xs)
      | JObj kvs \<Rightarrow> Inr (length kvs)
      | JStr s \<Rightarrow> Inr (length s)
      | _ \<Rightarrow> Inl TypeError)"

definition py_first :: "nat \<Rightarrow> json \<Rightarrow> py_exception + json" where
  \<comment> \<open>\<^verbatim>\<open>v[:n]\<close>; a \<^verbatim>\<open>dict\<close> cannot be sliced\<close>
  "py_first n v =
     (case v of
        JList xs \<Rightarrow> Inr (JList (take n xs))
      | JStr s \<Rightarrow> Inr (JStr (take n s))
      | _ \<Rightarrow> Inl TypeError)"

text \<open>
  \<^verbatim>\<open>str.strip()\<close> removes the leading and trailing characters for which
  \<^verbatim>\<open>isspace()\<close> holds; below 256 these are the code points 9 to 13, 28 to 32, 133
  and 160. \<^verbatim>\<open>str.lower()\<close> maps the upper-case letters of that range to lower case.
\<close>

definition isspace :: "char \<Rightarrow> bool" where
  "isspace c \<longleftrightarrow> (let n = (of_char c :: nat) in
     (9 \<le> n \<and> n \<le> 13) \<or> (28 \<le> n \<and> n \<le> 32) \<or> n = 133 \<or> n = 160)"

definition strip :: "string \<Rightarrow> string" where
  "strip s = rev (dropWhile isspace (rev (dropWhile isspace s)))"

definition lower_char :: "char \<Rightarrow> char" where
  "lower_char c = (let n = (of_char c :: nat) in
     if (65 \<le> n \<and> n \<le> 90) \<or> (192 \<le> n \<and> n \<le> 222 \<and> n \<noteq> 215)
     then char_of (n + 32) else c)"

definition lower :: "string \<Rightarrow> string" where
  "lower s = map lower_char s"

definition py_lower :: "json \<Rightarrow> py_exception + string" where
  \<comment> \<open>\<^verbatim>\<open>v.lower()\<close>: only a string has the method\<close>
  "py_lower v = (case v of JStr s \<Rightarrow> Inr (lower s) | _ \<Rightarrow> Inl AttributeError)"

fun join :: "string \<Rightarrow> string list \<Rightarrow> string" where
  "join sep [] = []"
| "join sep [x] = x"
| "join sep (x # y # ys) = x @ sep @ join sep (y # ys)"

definition py_join :: "string \<Rightarrow> json \<Rightarrow> py_exception + string" where
  \<comment> \<open>\<^verbatim>\<open>sep.join(v)\<close>: \<open>v\<close> must be iterable and its elements strings\<close>
  "py_join sep v =
     and_then (py_iter v) (\<lambda>xs.
     and_then (map_raising (\<lambda>x. case x of JStr s \<Rightarrow> Inr s | _ \<Rightarrow> Inl TypeError) xs) (\<lambda>ss.
     Inr (join sep ss)))"

section \<open>Reading and writing CSV\<close>

text \<open>
  A row read by \<^verbatim>\<open>csv.DictReader\<close> is a dict from the column names to the cells of
  the line. A line with fewer cells than the header leaves the missing cells
  \<^verbatim>\<open>None\<close> (the reader's \<^verbatim>\<open>restval\<close>); lines with more cells than the header are
  not modelled.
\<close>

type_synonym csv_row = "string option dict"

definition cell_value :: "string option \<Rightarrow> json" where
  "cell_value c = (case c of None \<Rightarrow> JNull | Some s \<Rightarrow> JStr s)"

definition row_values :: "csv_row \<Rightarrow> json dict" where
  \<comment> \<open>the row as a \<^verbatim>\<open>dict\<close> of Python values\<close>
  "row_values row = map (\<lambda>(k, c). (k, cell_value c)) row"

text \<open>
  A written file is its header and its rows, every row as wide as the header.
  \<^verbatim>\<open>DictWriter\<close> is used with its defaults: a key the dict lacks is written as the
  empty string (\<^verbatim>\<open>restval\<close>), and a dict with a key outside \<^verbatim>\<open>fieldnames\<close> raises
  \<^verbatim>\<open>ValueError\<close> (\<^verbatim>\<open>extrasaction='raise'\<close>). The text the csv module renders a
  cell to is not modelled: a cell is the value handed to the writer.
\<close>

record table =
  header :: "string list"
  body :: "json list list"

definition restval :: json where
  "restval = JStr []"

definition dict_to_list :: "string list \<Rightarrow> json dict \<Rightarrow> py_exception + json list" where
  "dict_to_list fieldnames rowdict =
     (if \<exists>k \<in> set (keys rowdict). k \<notin> set fieldnames then Inl ValueError
      else Inr (map (\<lambda>k. get rowdict k restval) fieldnames))"

definition writerows :: "string list \<Rightarrow> json dict list \<Rightarrow> py_exception + json list list" where
  "writerows fieldnames rowdicts = map_raising (dict_to_list fieldnames) rowdicts"

definition write_csv :: "string list \<Rightarrow> json dict list \<Rightarrow> py_exception + table" where
  \<comment> \<open>\<^verbatim>\<open>writeheader()\<close>, then \<^verbatim>\<open>writerows(rows)\<close>\<close>
  "write_csv fieldnames rows =
     and_then (writerows fieldnames rows) (\<lambda>rs. Inr \<lparr>header = fieldnames, body = rs\<rparr>)"

section \<open>The contest ranking scraper (leetcode\_scraper.py)\<close>

text \<open>
  The browser is the outside world. Asked for a page of a region it raises (any
  exception of the driver), shows a body that is not JSON, or shows a body that
  \<^verbatim>\<open>json.loads\<close> decodes to a value.
\<close>

datatype page_source = WebDriverException | NotJson | Json json

type_synonym browser = "int \<Rightarrow> string \<Rightarrow> page_source"

definition fetch_page_data :: "browser \<Rightarrow> int \<Rightarrow> string \<Rightarrow> json" where
  \<comment> \<open>both \<^verbatim>\<open>except\<close> branches print and return \<^verbatim>\<open>None\<close>\<close>
  "fetch_page_data driver page region =
     (case driver page region of
        Json data \<Rightarrow> data
      | NotJson \<Rightarrow> JNull
      | WebDriverException \<Rightarrow> JNull)"

definition add_submission :: "string \<times> json \<Rightarrow> json dict \<Rightarrow> py_exception + json dict" where
  \<comment> \<open>the body of the loop over \<^verbatim>\<open>submissions.items()\<close>\<close>
  "add_submission = (\<lambda>(problem_id, sub_info) user_data.
     and_then (as_dict sub_info) (\<lambda>info.
     let user_data = setitem user_data (''problem_'' @ problem_id @ ''_date'')
                       (get info ''date'' JNull);
         user_data = setitem user_data (''problem_'' @ problem_id @ ''_fail_count'')
                       (get info ''fail_count'' JNull);
         user_data = setitem user_data (''problem_'' @ problem_id @ ''_lang'')
                       (get info ''lang'' JNull)
     in Inr (setitem user_data (''problem_'' @ problem_id @ ''_submission_id'')
               (get info ''submission_id'' JNull))))"

definition ranking_row :: "json \<Rightarrow> py_exception + json dict" where
  \<comment> \<open>the body of the loop over \<^verbatim>\<open>data['total_rank']\<close>\<close>
  "ranking_row user =
     and_then (as_dict user) (\<lambda>u.
     let user_data =
           [(''rank'', get u ''rank'' JNull),
            (''username'', get u ''username'' JNull),
            (''user_slug'', get u ''user_slug'' JNull),
            (''country_code'', get u ''country_code'' JNull),
            (''country_name'', get u ''country_name'' JNull),
            (''score'', get u ''score'' JNull),
            (''finish_time'', get u ''finish_time'' JNull),
            (''data_region'', get u ''data_region'' JNull),
            (''contest_id'', get u ''contest_id'' JNull)]
     in and_then (as_dict (get u ''submissions'' (JObj []))) (\<lambda>submissions.
        fold_raising add_submission submissions user_data))"

definition parse_ranking_data :: "json \<Rightarrow> py_exception + json dict list" where
  "parse_ranking_data data =
     (if \<not> truthy data then Inr []
      else and_then (py_in ''total_rank'' data) (\<lambda>present.
           if \<not> present then Inr []
           else and_then (py_index data ''total_rank'') (\<lambda>total_rank.
                and_then (py_iter total_rank) (\<lambda>users.
                map_raising ranking_row users))))"

text \<open>
  \<^verbatim>\<open>scrape_pages\<close> threads four things through its loop: the accumulator
  \<^verbatim>\<open>all_rankings\<close>, the pages it asked the browser for, the status line it printed
  for each page, and the number of calls of \<^verbatim>\<open>time.sleep(delay)\<close>; the length of
  the delay plays no part. \<^verbatim>\<open>parse_ranking_data\<close> is called outside any \<^verbatim>\<open>try\<close>:
  an exception it raises ends the loop and the call, with the state as it is then.
\<close>

datatype page_status = Users nat | No_users | Failed

record scrape_state =
  all_rankings :: "json dict list"
  requested :: "int list"
  printed :: "(int \<times> page_status) list"
  sleeps :: nat

definition scrape_page ::
  "browser \<Rightarrow> string \<Rightarrow> int \<Rightarrow> int \<Rightarrow> scrape_state \<Rightarrow> py_exception option \<times> scrape_state" where
  \<comment> \<open>the body of the \<^verbatim>\<open>for\<close> loop; \<open>Some e\<close> when it raises \<open>e\<close>\<close>
  "scrape_page driver region max_page page st =
     (let data = fetch_page_data driver page region;
          st = st\<lparr>requested := requested st @ [page]\<rparr>
      in if truthy data then
           (case parse_ranking_data data of
              Inl e \<Rightarrow> (Some e, st)
            | Inr rankings \<Rightarrow>
                (let st = (if rankings \<noteq> [] then
                             st\<lparr>all_rankings := all_rankings st @ rankings,
                                printed := printed st @ [(page, Users (length rankings))]\<rparr>
                           else st\<lparr>printed := printed st @ [(page, No_users)]\<rparr>)
                 in (None, if page < max_page then st\<lparr>sleeps := sleeps st + 1\<rparr> else st)))
         else
           (let st = st\<lparr>printed := printed st @ [(page, Failed)]\<rparr>
            in (None, if page < max_page then st\<lparr>sleeps := sleeps st + 1\<rparr> else st)))"

fun scrape_loop ::
  "browser \<Rightarrow> string \<Rightarrow> int \<Rightarrow> int list \<Rightarrow> scrape_state \<Rightarrow> py_exception option \<times> scrape_state" where
  "scrape_loop driver region max_page [] st = (None, st)"
| "scrape_loop driver region max_page (page # pages) st =
     (case scrape_page driver region max_page page st of
        (Some e, st') \<Rightarrow> (Some e, st')
      | (None, st') \<Rightarrow> scrape_loop driver region max_page pages st')"

text \<open>
  The function validates nothing. When the loop ends without an exception it
  returns a data frame, the empty one when nothing was collected; the data frame is
  the list of collected rows. When the loop raises, so does the call, and the rows
  collected so far are not returned.
\<close>

record scrape_run =
  returned :: "py_exception + json dict list"
  final :: scrape_state

definition scrape_pages :: "browser \<Rightarrow> int \<Rightarrow> int \<Rightarrow> string \<Rightarrow> scrape_run" where
  "scrape_pages driver min_page max_page region =
     (case scrape_loop driver region max_page [min_page..max_page]
             \<lparr>all_rankings = [], requested = [], printed = [], sleeps = 0\<rparr> of
        (Some e, st) \<Rightarrow> \<lparr>returned = Inl e, final = st\<rparr>
      | (None, st) \<Rightarrow>
          if all_rankings st = [] then \<lparr>returned = Inr [], final = st\<rparr>
          else \<lparr>returned = Inr (all_rankings st), final = st\<rparr>)"

text \<open>
  What one page contributes when it is reached: the records it decodes to, none for
  a page whose fetch gave \<^verbatim>\<open>None\<close> or an empty value, or the exception of the
  decoder.
\<close>

definition page_records :: "browser \<Rightarrow> string \<Rightarrow> int \<Rightarrow> py_exception + json dict list" where
  "page_records driver region page = parse_ranking_data (fetch_page_data driver page region)"

section \<open>The GraphQL endpoint\<close>

text \<open>
  Both fetchers post a \<^verbatim>\<open>getUserProfile\<close> query, check the status and decode the
  body. These calls belong to the \<^verbatim>\<open>requests\<close> library: their outcome, an exception
  or the decoded body, is a parameter, given for the number of the requester (a
  future of the pool, or a row of the input file) and the slug asked for. Both
  fetchers then read \<^verbatim>\<open>get("data", {}).get("matchedUser")\<close> from the body.
\<close>

type_synonym network = "nat \<Rightarrow> string \<Rightarrow> py_exception + json"

definition matched_user_of :: "json \<Rightarrow> py_exception + json" where
  "matched_user_of payload =
     and_then (as_dict payload) (\<lambda>b.
     and_then (as_dict (get b ''data'' (JObj []))) (\<lambda>d.
     Inr (get d ''matchedUser'' JNull)))"

section \<open>The school fetcher (user\_school\_leetcode\_fetcher.py)\<close>

definition not_fetched :: "string \<Rightarrow> json dict" where
  \<comment> \<open>the dict both the not-found branch and the \<^verbatim>\<open>except\<close> branch return\<close>
  "not_fetched user_slug =
     [(''user_slug'', JStr user_slug), (''username'', JStr []), (''school'', JStr [])]"

definition fetch_user_try :: "network \<Rightarrow> nat \<Rightarrow> string \<Rightarrow> py_exception + json dict" where
  \<comment> \<open>the body of the \<^verbatim>\<open>try\<close>\<close>
  "fetch_user_try session i user_slug =
     and_then (session i user_slug) (\<lambda>payload.
     and_then (matched_user_of payload) (\<lambda>data.
     if \<not> truthy data then Inr (not_fetched user_slug)
     else and_then (as_dict data) (\<lambda>d.
          and_then (as_dict (get d ''profile'' (JObj []))) (\<lambda>profile.
          Inr [(''user_slug'', JStr user_slug),
               (''username'', get d ''username'' (JStr [])),
               (''school'', get profile ''school'' (JStr []))]))))"

definition fetch_user :: "network \<Rightarrow> nat \<Rightarrow> string \<Rightarrow> json dict" where
  \<comment> \<open>\<^verbatim>\<open>except Exception\<close> catches whatever the body raises\<close>
  "fetch_user session i user_slug =
     (case fetch_user_try session i user_slug of
        Inl e \<Rightarrow> not_fetched user_slug
      | Inr result \<Rightarrow> result)"

definition read_user_slugs :: "csv_row list \<Rightarrow> string list" where
  \<comment> \<open>\<^verbatim>\<open>[r.get("user_slug", "").strip() for r in reader if r.get("user_slug")]\<close>:
      a row passes the condition when the cell is a non-empty string, so
      \<^verbatim>\<open>strip\<close> is applied to strings only\<close>
  "read_user_slugs rows =
     concat (map (\<lambda>r. case get r ''user_slug'' None of
                         None \<Rightarrow> []
                       | Some s \<Rightarrow> if s = [] then [] else [strip s]) rows)"

text \<open>
  The pool runs one future per slug, the \<open>i\<close>-th future for the \<open>i\<close>-th slug, and
  the result of a future is what \<^verbatim>\<open>fetch_user\<close> returned for its slug.
  \<^verbatim>\<open>as_completed\<close> yields every submitted future exactly once: the futures that have
  already finished when it is called in the iteration order of a set, the others
  as they finish. The order is not in the hands of the script: \<open>yielded\<close> lists
  the futures' numbers in the order in which they are yielded, a permutation of
  \<open>[0..<length user_slugs]\<close>.
\<close>

definition collect_results :: "network \<Rightarrow> nat list \<Rightarrow> string list \<Rightarrow> json dict list" where
  "collect_results session yielded user_slugs =
     map (\<lambda>i. fetch_user session i (user_slugs ! i)) yielded"

definition process_csv ::
  "network \<Rightarrow> nat list \<Rightarrow> csv_row list \<Rightarrow> py_exception + table option" where
  "process_csv session yielded rows =
     (let user_slugs = read_user_slugs rows;
          results = collect_results session yielded user_slugs
      in if results \<noteq> [] then
           (case write_csv [''user_slug'', ''username'', ''school''] results of
              Inl e \<Rightarrow> Inl e
            | Inr t \<Rightarrow> Inr (Some t))
         else Inr None)"

section \<open>The bulk detail fetcher (user\_detail\_leetcode\_fetcher.py)\<close>

definition fetch_leetcode_user_data :: "network \<Rightarrow> nat \<Rightarrow> string \<Rightarrow> py_exception + json" where
  \<comment> \<open>only a \<^verbatim>\<open>RequestException\<close> is caught; \<^verbatim>\<open>None\<close> for it and for an unknown user\<close>
  "fetch_leetcode_user_data net i user_slug =
     (case net i user_slug of
        Inl e \<Rightarrow> if e = RequestException then Inr JNull else Inl e
      | Inr data \<Rightarrow> matched_user_of data)"

definition joined :: "json \<Rightarrow> py_exception + json" where
  \<comment> \<open>\<^verbatim>\<open>"; ".join(v) if v else ""\<close>\<close>
  "joined v =
     (if truthy v then and_then (py_join ''; '' v) (\<lambda>s. Inr (JStr s)) else Inr (JStr []))"

definition add_count :: "string \<Rightarrow> json \<Rightarrow> json dict \<Rightarrow> py_exception + json dict" where
  \<comment> \<open>the body of the loops over \<^verbatim>\<open>acSubmissionNum\<close> and \<^verbatim>\<open>totalSubmissionNum\<close>\<close>
  "add_count suffix item parsed =
     and_then (as_dict item) (\<lambda>it.
     and_then (py_lower (get it ''difficulty'' (JStr ''Unknown''))) (\<lambda>difficulty.
     Inr (setitem parsed (difficulty @ suffix) (get it ''count'' (JInt 0)))))"

definition add_counts :: "string \<Rightarrow> string \<Rightarrow> json dict \<Rightarrow> json dict \<Rightarrow> py_exception + json dict" where
  \<comment> \<open>\<^verbatim>\<open>if submit_stats.get(k): for item in submit_stats[k]: ...\<close>\<close>
  "add_counts k suffix submit_stats parsed =
     (if truthy (get submit_stats k JNull) then
        and_then (py_iter (get submit_stats k JNull)) (\<lambda>items.
        fold_raising (add_count suffix) items parsed)
      else Inr parsed)"

definition badge_names :: "json \<Rightarrow> py_exception + json" where
  \<comment> \<open>\<^verbatim>\<open>"; ".join([b.get("displayName", "") for b in badges[:10]])\<close>\<close>
  "badge_names badges =
     and_then (py_first 10 badges) (\<lambda>first.
     and_then (py_iter first) (\<lambda>bs.
     and_then (map_raising (\<lambda>b. and_then (as_dict b) (\<lambda>d. Inr (get d ''displayName'' (JStr []))))
                 bs) (\<lambda>names.
     and_then (py_join ''; '' (JList names)) (\<lambda>s. Inr (JStr s)))))"

definition profile_fields :: "json dict \<Rightarrow> json dict \<Rightarrow> json \<Rightarrow> json \<Rightarrow> json dict" where
  \<comment> \<open>the dict literal \<^verbatim>\<open>parsed = {...}\<close>\<close>
  "profile_fields u profile websites skill_tags =
     [(''username'', get u ''username'' (JStr [])),
      (''real_name'', get profile ''realName'' (JStr [])),
      (''country'', get profile ''countryName'' (JStr [])),
      (''company'', get profile ''company'' (JStr [])),
      (''school_college'', get profile ''school'' (JStr [])),
      (''ranking'', get profile ''ranking'' (JStr [])),
      (''reputation'', get profile ''reputation'' (JStr [])),
      (''star_rating'', get profile ''starRating'' (JStr [])),
      (''about_me'', get profile ''aboutMe'' (JStr [])),
      (''birthday'', get profile ''birthday'' (JStr [])),
      (''avatar'', get profile ''userAvatar'' (JStr [])),
      (''websites'', websites),
      (''skill_tags'', skill_tags)]"

definition add_badges :: "json dict \<Rightarrow> json dict \<Rightarrow> py_exception + json dict" where
  \<comment> \<open>the badge entries: \<^verbatim>\<open>total_badges\<close>, \<^verbatim>\<open>badge_names\<close>, \<^verbatim>\<open>active_badge\<close>\<close>
  "add_badges u parsed =
     and_then (py_len (get u ''badges'' (JList []))) (\<lambda>total_badges.
     and_then (badge_names (get u ''badges'' (JList []))) (\<lambda>names.
     and_then
       (if truthy (get u ''activeBadge'' JNull) then
          and_then (as_dict (get u ''activeBadge'' JNull)) (\<lambda>b.
          Inr (get b ''displayName'' (JStr [])))
        else Inr (JStr [])) (\<lambda>active_badge.
     Inr (setitem (setitem (setitem parsed ''total_badges'' (JInt (int total_badges)))
                     ''badge_names'' names)
            ''active_badge'' active_badge))))"

definition parse_user_data :: "json \<Rightarrow> py_exception + json dict" where
  "parse_user_data user_data =
     (if \<not> truthy user_data then Inr []
      else
        and_then (as_dict user_data) (\<lambda>u.
        and_then (as_dict (get u ''profile'' (JObj []))) (\<lambda>profile.
        and_then (joined (get profile ''websites'' (JList []))) (\<lambda>websites.
        and_then (joined (get profile ''skillTags'' (JList []))) (\<lambda>skill_tags.
        and_then (as_dict (get u ''submitStats'' (JObj []))) (\<lambda>submit_stats.
        and_then (add_counts ''acSubmissionNum'' ''_solved'' submit_stats
                    (profile_fields u profile websites skill_tags)) (\<lambda>parsed.
        and_then (add_counts ''totalSubmissionNum'' ''_total_submissions'' submit_stats parsed)
          (\<lambda>parsed.
        add_badges u parsed))))))))"

definition fieldnames_of :: "json dict list \<Rightarrow> string list" where
  \<comment> \<open>the set of all keys, then \<^verbatim>\<open>sorted(list(all_fieldnames))\<close>\<close>
  "fieldnames_of all_user_data =
     sorted_list_of_set (fold (\<lambda>data all_fieldnames. all_fieldnames \<union> set (keys data))
                           all_user_data {})"

definition user_slug_of :: "csv_row \<Rightarrow> py_exception + string" where
  \<comment> \<open>\<^verbatim>\<open>row.get('user_slug', '').strip()\<close>: \<^verbatim>\<open>None\<close> has no \<^verbatim>\<open>strip\<close>\<close>
  "user_slug_of row =
     (case get row ''user_slug'' (Some []) of
        None \<Rightarrow> Inl AttributeError
      | Some s \<Rightarrow> Inr (strip s))"

definition row_result :: "network \<Rightarrow> nat \<times> csv_row \<Rightarrow> py_exception + json dict list" where
  \<comment> \<open>what one pass of the loop over \<^verbatim>\<open>enumerate(rows, 1)\<close> appends: nothing for
      a row without a slug, else the merged or the unchanged row\<close>
  "row_result net = (\<lambda>(idx, row).
     and_then (user_slug_of row) (\<lambda>user_slug.
     if user_slug = [] then Inr []
     else and_then (fetch_leetcode_user_data net idx user_slug) (\<lambda>user_data.
          if truthy user_data then
            and_then (parse_user_data user_data) (\<lambda>parsed_data.
            Inr [dict_merge (row_values row) parsed_data])
          else Inr [row_values row])))"

definition fetch_row ::
  "network \<Rightarrow> nat \<times> csv_row \<Rightarrow> json dict list \<Rightarrow> py_exception + json dict list" where
  \<comment> \<open>the body of the loop, on the accumulator\<close>
  "fetch_row net x all_user_data =
     and_then (row_result net x) (\<lambda>new. Inr (all_user_data @ new))"

definition collect_user_data :: "network \<Rightarrow> csv_row list \<Rightarrow> py_exception + json dict list" where
  "collect_user_data net rows =
     fold_raising (fetch_row net) (zip [1..<Suc (length rows)] rows) []"

text \<open>
  The whole body sits in a \<^verbatim>\<open>try\<close>: an exception of the loop or of the writer is
  printed and the function ends without a saved table.
\<close>

datatype saved = Saved table | No_data | Error py_exception

definition process_csv_file :: "network \<Rightarrow> csv_row list \<Rightarrow> saved" where
  "process_csv_file net rows =
     (case collect_user_data net rows of
        Inl e \<Rightarrow> Error e
      | Inr all_user_data \<Rightarrow>
          if all_user_data \<noteq> [] then
            (case write_csv (fieldnames_of all_user_data) all_user_data of
               Inl e \<Rightarrow> Error e
             | Inr t \<Rightarrow> Saved t)
          else No_data)"



section \<open>Saving one profile (user\_detail\_by\_id.py)\<close>

definition save_to_csv :: "json dict \<Rightarrow> table option" where
  \<comment> \<open>\<^verbatim>\<open>fieldnames = sorted(parsed_data.keys())\<close>; an exception gives \<^verbatim>\<open>None\<close>\<close>
  "save_to_csv parsed_data =
     (case write_csv (sort (keys parsed_data)) [parsed_data] of
        Inl e \<Rightarrow> None
      | Inr t \<Rightarrow> Some t)"

section \<open>The column order of the specification\<close>

text \<open>
  The specification describes the column list as the union of the field names of
  all records in first-occurrence order: a name joins the list, at its end, the
  first time a record has it. This definition follows those words, for comparison
  with \<^verbatim>\<open>fieldnames_of\<close>, which follows the code.
\<close>

definition spec_first_seen_columns :: "json dict list \<Rightarrow> string list" where
  "spec_first_seen_columns records =
     fold (\<lambda>record columns.
             fold (\<lambda>k columns. if k \<in> set columns then columns else columns @ [k])
               (keys record) columns)
       records []"

section \<open>Sample inputs\<close>

text \<open>
  A contest of four users over pages 1 and 3. Page 2 does not show JSON, page 4
  shows an empty object, page 5 shows an object whose \<^verbatim>\<open>total_rank\<close> is \<^verbatim>\<open>null\<close>,
  and the browser fails on every other page.
\<close>

definition sample_user :: "string \<Rightarrow> int \<Rightarrow> json" where
  "sample_user name r =
     JObj [(''rank'', JInt r), (''username'', JStr name), (''user_slug'', JStr name),
           (''score'', JInt 18),
           (''submissions'',
              JObj [(''3201'', JObj [(''date'', JInt 1700000000), (''fail_count'', JInt 0),
                                     (''lang'', JStr ''python3'')])])]"

definition sample_browser :: browser where
  "sample_browser page region =
     (if page = 1 then
        Json (JObj [(''total_rank'', JList [sample_user ''ann'' 1, sample_user ''bob'' 2]),
                    (''user_num'', JInt 4)])
      else if page = 2 then NotJson
      else if page = 3 then
        Json (JObj [(''total_rank'', JList [sample_user ''cy'' 3, sample_user ''dee'' 4]),
                    (''user_num'', JInt 4)])
      else if page = 4 then Json (JObj [])
      else if page = 5 then Json (JObj [(''total_rank'', JNull), (''user_num'', JInt 4)])
      else WebDriverException)"

definition sample_row :: "string \<Rightarrow> int \<Rightarrow> json dict" where
  \<comment> \<open>the record the sample user decodes to\<close>
  "sample_row name r =
     [(''rank'', JInt r), (''username'', JStr name), (''user_slug'', JStr name),
      (''country_code'', JNull), (''country_name'', JNull), (''score'', JInt 18),
      (''finish_time'', JNull), (''data_region'', JNull), (''contest_id'', JNull),
      (''problem_3201_date'', JInt 1700000000), (''problem_3201_fail_count'', JInt 0),
      (''problem_3201_lang'', JStr ''python3''), (''problem_3201_submission_id'', JNull)]"

text \<open>
  A profile, and a network that knows \<^verbatim>\<open>bob\<close>, answers \<^verbatim>\<open>null\<close> for \<^verbatim>\<open>ann\<close>, answers
  with errors and no data for \<^verbatim>\<open>eve\<close> and cannot connect otherwise; an input file
  whose second row has a blank slug.
\<close>

definition sample_matched_user :: json where
  "sample_matched_user =
     JObj [(''username'', JStr ''Bob''),
           (''profile'',
              JObj [(''realName'', JStr ''Bob B''), (''school'', JStr ''MIT''),
                    (''ranking'', JInt 120),
                    (''websites'', JList [JStr ''a.io'', JStr ''b.io'']),
                    (''skillTags'', JList [])]),
           (''submitStats'',
              JObj [(''acSubmissionNum'',
                       JList [JObj [(''difficulty'', JStr ''All''), (''count'', JInt 10)],
                              JObj [(''difficulty'', JStr ''Easy''), (''count'', JInt 7)]]),
                    (''totalSubmissionNum'',
                       JList [JObj [(''difficulty'', JStr ''All''), (''count'', JInt 30)]])]),
           (''badges'', JList [JObj [(''id'', JStr ''7''), (''displayName'', JStr ''50 Days'')]]),
           (''activeBadge'', JNull)]"

definition sample_net :: network where
  "sample_net i user_slug =
     (if user_slug = ''bob'' then
        Inr (JObj [(''data'', JObj [(''matchedUser'', sample_matched_user)])])
      else if user_slug = ''ann'' then
        Inr (JObj [(''data'', JObj [(''matchedUser'', JNull)])])
      else if user_slug = ''eve'' then
        Inr (JObj [(''errors'', JList [JStr ''internal error'']), (''data'', JNull)])
      else Inl RequestException)"

definition sample_rows :: "csv_row list" where
  "sample_rows =
     [[(''rank'', Some ''1''), (''username'', Some ''alice''), (''user_slug'', Some ''ann'')],
      [(''rank'', Some ''2''), (''username'', Some []), (''user_slug'', Some '' '')],
      [(''rank'', Some ''3''), (''username'', Some ''bobby''), (''user_slug'', Some ''bob'')],
      [(''rank'', Some ''4''), (''username'', Some ''cyrus''), (''user_slug'', Some ''cy'')]]"

section \<open>Properties of the scraper\<close>

lemma and_then_Inr [simp]: "and_then (Inr x) f = f x"
  by (simp add: and_then_def)

lemma and_then_Inl [simp]: "and_then (Inl e) f = Inl e"
  by (simp add: and_then_def)

lemma page_records_falsy:
  "\<not> truthy (fetch_page_data driver page region) \<Longrightarrow> page_records driver region page = Inr []"
  by (simp add: page_records_def parse_ranking_data_def)

lemma scrape_page_raises:
  assumes "page_records driver region page = Inl e"
  shows "scrape_page driver region m page st = (Some e, st\<lparr>requested := requested st @ [page]\<rparr>)"
proof -
  have "truthy (fetch_page_data driver page region)"
    using assms page_records_falsy by fastforce
  then show ?thesis
    using assms by (simp add: scrape_page_def page_records_def Let_def)
qed

lemma scrape_page_returns:
  assumes "page_records driver region page = Inr rs"
  shows "fst (scrape_page driver region m page st) = None
       \<and> requested (snd (scrape_page driver region m page st)) = requested st @ [page]
       \<and> all_rankings (snd (scrape_page driver region m page st)) = all_rankings st @ rs"
proof (cases "truthy (fetch_page_data driver page region)")
  case True
  then show ?thesis
    using assms by (simp add: scrape_page_def page_records_def Let_def)
next
  case False
  then have "rs = []" using assms page_records_falsy by fastforce
  then show ?thesis
    using False by (simp add: scrape_page_def Let_def)
qed

lemma scrape_loop_returns:
  assumes "\<forall>p \<in> set pages. \<not> isl (page_records driver region p)"
  shows "fst (scrape_loop driver region m pages st) = None
       \<and> requested (snd (scrape_loop driver region m pages st)) = requested st @ pages
       \<and> all_rankings (snd (scrape_loop driver region m pages st)) =
           all_rankings st @ concat (map (\<lambda>p. projr (page_records driver region p)) pages)"
  using assms
proof (induction pages arbitrary: st)
  case Nil
  then show ?case by simp
next
  case (Cons p ps)
  then obtain rs where rs: "page_records driver region p = Inr rs"
    by (cases "page_records driver region p") auto
  obtain st' where st': "scrape_page driver region m p st = (None, st')"
    using scrape_page_returns [OF rs, of m st] by (cases "scrape_page driver region m p st") auto
  have r: "requested st' = requested st @ [p]" and a: "all_rankings st' = all_rankings st @ rs"
    using scrape_page_returns [OF rs, of m st] st' by simp_all
  have "\<forall>q \<in> set ps. \<not> isl (page_records driver region q)" using Cons.prems by simp
  from Cons.IH [OF this, of st'] show ?case
    using st' r a rs by simp
qed

lemma scrape_loop_raises:
  assumes "\<forall>p \<in> set before. \<not> isl (page_records driver region p)"
    and "page_records driver region k = Inl e"
  shows "fst (scrape_loop driver region m (before @ k # after) st) = Some e
       \<and> requested (snd (scrape_loop driver region m (before @ k # after) st)) =
           requested st @ before @ [k]"
  using assms(1)
proof (induction before arbitrary: st)
  case Nil
  then show ?case using scrape_page_raises [OF assms(2)] by simp
next
  case (Cons p ps)
  then obtain rs where rs: "page_records driver region p = Inr rs"
    by (cases "page_records driver region p") auto
  obtain st' where st': "scrape_page driver region m p st = (None, st')"
    using scrape_page_returns [OF rs, of m st] by (cases "scrape_page driver region m p st") auto
  have r: "requested st' = requested st @ [p]"
    using scrape_page_returns [OF rs, of m st] st' by simp
  have "\<forall>q \<in> set ps. \<not> isl (page_records driver region q)" using Cons.prems by simp
  from Cons.IH [OF this, of st'] show ?case
    using st' r by simp
qed

text \<open>
  When every page of the range decodes, the whole range is requested in order and
  the returned frame is the pages' records in page order.
\<close>

lemma scrape_pages_when_all_pages_decode:
  assumes "\<forall>p \<in> set [min_page..max_page]. \<not> isl (page_records driver region p)"
  shows "requested (final (scrape_pages driver min_page max_page region)) = [min_page..max_page]
       \<and> returned (scrape_pages driver min_page max_page region) =
           Inr (concat (map (\<lambda>p. projr (page_records driver region p)) [min_page..max_page]))"
proof -
  let ?init = "\<lparr>all_rankings = [], requested = [], printed = [], sleeps = 0\<rparr>"
  obtain x st where l: "scrape_loop driver region max_page [min_page..max_page] ?init = (x, st)"
    by (cases "scrape_loop driver region max_page [min_page..max_page] ?init") auto
  have "x = None" and "requested st = [min_page..max_page]"
    and "all_rankings st =
           concat (map (\<lambda>p. projr (page_records driver region p)) [min_page..max_page])"
    using scrape_loop_returns [OF assms, of max_page ?init] l by simp_all
  then show ?thesis using l by (simp add: scrape_pages_def)
qed

text \<open>
  When a page of the range makes the decoder raise, the call raises at that page:
  the pages after it are not requested and no frame is returned.
\<close>

lemma upto_split_at: "a \<le> k \<Longrightarrow> k \<le> b \<Longrightarrow> [a..b] = [a..k - 1] @ k # [k + 1..b]"
  using upto_split3 [of a k b] by simp

lemma scrape_pages_when_a_page_raises:
  assumes "min_page \<le> k" and "k \<le> max_page"
    and "\<forall>p \<in> set [min_page..k - 1]. \<not> isl (page_records driver region p)"
    and "page_records driver region k = Inl e"
  shows "returned (scrape_pages driver min_page max_page region) = Inl e
       \<and> requested (final (scrape_pages driver min_page max_page region)) = [min_page..k]"
proof -
  let ?init = "\<lparr>all_rankings = [], requested = [], printed = [], sleeps = 0\<rparr>"
  have s: "[min_page..max_page] = [min_page..k - 1] @ k # [k + 1..max_page]"
    using assms(1,2) by (rule upto_split_at)
  have k: "[min_page..k] = [min_page..k - 1] @ [k]"
    using assms(1) by (simp add: upto_rec2 [of min_page k])
  obtain x st where l: "scrape_loop driver region max_page [min_page..max_page] ?init = (x, st)"
    by (cases "scrape_loop driver region max_page [min_page..max_page] ?init") auto
  have "x = Some e" and "requested st = [min_page..k - 1] @ [k]"
    using scrape_loop_raises [OF assms(3,4), of max_page "[k + 1..max_page]" ?init] l s
    by simp_all
  then show ?thesis using l k by (simp add: scrape_pages_def)
qed

text \<open>
  Claim C6, at the range 3 to 6 of the sample contest. Page 5 is valid JSON whose
  \<^verbatim>\<open>total_rank\<close> is \<^verbatim>\<open>null\<close>: \<^verbatim>\<open>parse_ranking_data\<close> raises \<^verbatim>\<open>TypeError\<close> on it,
  outside any \<^verbatim>\<open>try\<close>, and the call ends there. Page 6 of the range is never
  requested.
\<close>

theorem malformed_page_ends_the_range:
  "requested (final (scrape_pages sample_browser 3 6 ''global_v2'')) = [3, 4, 5]
   \<and> 6 \<notin> set (requested (final (scrape_pages sample_browser 3 6 ''global_v2'')))
   \<and> returned (scrape_pages sample_browser 3 6 ''global_v2'') = Inl TypeError"
  by code_simp

text \<open>
  Claim C7, at the range 1 to 6 of the sample contest. The failure of page 2 (not
  JSON) and of page 4 (empty) is local, as the claim says. The failure of page 5,
  JSON of an unexpected shape, is not: the call raises, and the four records
  collected from pages 1 and 3 are in the accumulator but are not returned.
\<close>

theorem malformed_page_loses_the_records:
  "returned (scrape_pages sample_browser 1 6 ''global_v2'') = Inl TypeError
   \<and> all_rankings (final (scrape_pages sample_browser 1 6 ''global_v2'')) =
       [sample_row ''ann'' 1, sample_row ''bob'' 2, sample_row ''cy'' 3, sample_row ''dee'' 4]
   \<and> printed (final (scrape_pages sample_browser 1 6 ''global_v2'')) =
       [(1, Users 2), (2, Failed), (3, Users 2), (4, Failed)]
   \<and> requested (final (scrape_pages sample_browser 1 6 ''global_v2'')) = [1, 2, 3, 4, 5]"
  by code_simp

text \<open>
  Claim C8, as the code has it. \<^verbatim>\<open>scrape_pages\<close> does not validate its range. With
  \<open>max_page < min_page\<close> the loop body never runs: no page is requested, nothing is
  printed for a page, and the call returns the empty frame as any run without data
  does; no error is raised.
\<close>

theorem invalid_range_returns_empty:
  assumes "max_page < min_page"
  shows "scrape_pages driver min_page max_page region =
     \<lparr>returned = Inr [],
      final = \<lparr>all_rankings = [], requested = [], printed = [], sleeps = 0\<rparr>\<rparr>"
  using assms by (simp add: scrape_pages_def)

theorem invalid_range_returns_empty_witness:
  "scrape_pages sample_browser 5 3 ''global_v2'' =
     \<lparr>returned = Inr [],
      final = \<lparr>all_rankings = [], requested = [], printed = [], sleeps = 0\<rparr>\<rparr>"
proof -
  have h: "(3::int) < 5" by simp
  show ?thesis
    using invalid_range_returns_empty [OF h, of sample_browser "''global_v2''"] by simp
qed

text \<open>The call with the range 5 to 3 does not end in an exception.\<close>

theorem invalid_range_no_error_counterexample:
  "\<not> isl (returned (scrape_pages sample_browser 5 3 ''global_v2''))"
  by (simp add: scrape_pages_def)

section \<open>Properties of the school fetcher\<close>

lemma fetch_user_try_key:
  "fetch_user_try session i s = Inr r \<Longrightarrow> get r ''user_slug'' JNull = JStr s"
  by (auto simp: fetch_user_try_def and_then_def not_fetched_def get_def
           split: sum.splits if_splits)

lemma fetch_user_key: "get (fetch_user session i s) ''user_slug'' JNull = JStr s"
  by (cases "fetch_user_try session i s")
     (simp_all add: fetch_user_def fetch_user_try_key, simp add: not_fetched_def get_def)

lemma fetch_user_raised:
  "isl (fetch_user_try session i s) \<Longrightarrow>
   fetch_user session i s = [(''user_slug'', JStr s), (''username'', JStr []), (''school'', JStr [])]"
  by (cases "fetch_user_try session i s") (simp_all add: fetch_user_def not_fetched_def)

lemma fetch_user_not_found:
  "session i s = Inr payload \<Longrightarrow> matched_user_of payload = Inr JNull \<Longrightarrow>
   fetch_user session i s = [(''user_slug'', JStr s), (''username'', JStr []), (''school'', JStr [])]"
  by (simp add: fetch_user_def fetch_user_try_def truthy_def not_fetched_def)

lemma permutation_facts:
  assumes "mset yielded = mset [0..<n]"
  shows "length yielded = n" and "distinct yielded" and "set yielded = {0..<n}"
proof -
  show "length yielded = n"
    using assms by (metis length_upt mset_eq_length minus_nat.diff_0)
  show "distinct yielded"
    using assms by (metis distinct_upt mset_eq_imp_distinct_iff)
  show "set yielded = {0..<n}"
    using assms by (metis atLeastLessThan_upt mset_eq_setD)
qed

lemma mset_map_permutation:
  assumes "mset yielded = mset [0..<n]"
  shows "mset (map f yielded) = mset (map f [0..<n])"
proof -
  have "mset (map f yielded) = image_mset f (mset yielded)" by simp
  also have "\<dots> = image_mset f (mset [0..<n])" using assms by simp
  finally show ?thesis by simp
qed

text \<open>
  Claim C1. Whatever the order in which the futures are yielded, the collected
  results hold exactly one entry per submitted slug: the results are, as a
  multiset, the fetch results of the submitted futures, and their \<^verbatim>\<open>user_slug\<close>
  fields are the submitted slugs with their multiplicities. A slug whose fetch
  raised (at the request or while the answer was read) or found no user is there
  as the dict with that slug, the empty string as \<^verbatim>\<open>username\<close> and the empty string
  as \<^verbatim>\<open>school\<close>.
\<close>

theorem every_key_resolves_once:
  assumes "mset yielded = mset [0..<length user_slugs]"
  shows "length (collect_results session yielded user_slugs) = length user_slugs
       \<and> mset (collect_results session yielded user_slugs) =
           mset (map (\<lambda>i. fetch_user session i (user_slugs ! i)) [0..<length user_slugs])
       \<and> mset (map (\<lambda>r. get r ''user_slug'' JNull)
                  (collect_results session yielded user_slugs)) =
           mset (map JStr user_slugs)
       \<and> (\<forall>i < length user_slugs.
             isl (session i (user_slugs ! i))
             \<or> isl (fetch_user_try session i (user_slugs ! i))
             \<or> (\<exists>payload. session i (user_slugs ! i) = Inr payload
                          \<and> matched_user_of payload = Inr JNull) \<longrightarrow>
             [(''user_slug'', JStr (user_slugs ! i)), (''username'', JStr []), (''school'', JStr [])]
               \<in> set (collect_results session yielded user_slugs))"
proof -
  let ?n = "length user_slugs"
  let ?f = "\<lambda>i. fetch_user session i (user_slugs ! i)"
  let ?key = "\<lambda>r. get r ''user_slug'' JNull"
  have len: "length yielded = ?n"
    using assms by (rule permutation_facts)
  have ms: "mset (collect_results session yielded user_slugs) = mset (map ?f [0..<?n])"
    unfolding collect_results_def using assms by (rule mset_map_permutation)
  have "map ?key (map ?f [0..<?n]) = map (\<lambda>i. JStr (user_slugs ! i)) [0..<?n]"
    by (simp add: fetch_user_key)
  also have "\<dots> = map JStr (map (\<lambda>i. user_slugs ! i) [0..<?n])" by simp
  also have "\<dots> = map JStr user_slugs" by (simp add: map_nth)
  finally have ks: "map ?key (map ?f [0..<?n]) = map JStr user_slugs" .
  have keys: "mset (map ?key (collect_results session yielded user_slugs)) =
              mset (map JStr user_slugs)"
  proof -
    have "mset (map ?key (collect_results session yielded user_slugs)) =
          image_mset ?key (mset (collect_results session yielded user_slugs))"
      by (simp only: mset_map)
    also have "\<dots> = image_mset ?key (mset (map ?f [0..<?n]))"
      by (simp only: ms)
    also have "\<dots> = mset (map ?key (map ?f [0..<?n]))"
      by (simp only: mset_map)
    also have "\<dots> = mset (map JStr user_slugs)"
      by (simp only: ks)
    finally show ?thesis .
  qed
  have failed: "\<forall>i < ?n.
             isl (session i (user_slugs ! i))
             \<or> isl (fetch_user_try session i (user_slugs ! i))
             \<or> (\<exists>payload. session i (user_slugs ! i) = Inr payload
                          \<and> matched_user_of payload = Inr JNull) \<longrightarrow>
             [(''user_slug'', JStr (user_slugs ! i)), (''username'', JStr []), (''school'', JStr [])]
               \<in> set (collect_results session yielded user_slugs)"
  proof (intro allI impI)
    fix i
    assume i: "i < ?n"
      and f: "isl (session i (user_slugs ! i))
             \<or> isl (fetch_user_try session i (user_slugs ! i))
             \<or> (\<exists>payload. session i (user_slugs ! i) = Inr payload
                          \<and> matched_user_of payload = Inr JNull)"
    have "?f i \<in> set (map ?f [0..<?n])" using i by simp
    then have mem: "?f i \<in> set (collect_results session yielded user_slugs)"
      using ms by (metis set_mset_mset)
    have "isl (session i (user_slugs ! i)) \<Longrightarrow> isl (fetch_user_try session i (user_slugs ! i))"
      by (cases "session i (user_slugs ! i)") (simp_all add: fetch_user_try_def)
    then have "?f i = [(''user_slug'', JStr (user_slugs ! i)), (''username'', JStr []),
                       (''school'', JStr [])]"
      using f fetch_user_raised [of session i "user_slugs ! i"]
        fetch_user_not_found [of session i "user_slugs ! i"]
      by blast
    then show "[(''user_slug'', JStr (user_slugs ! i)), (''username'', JStr []), (''school'', JStr [])]
               \<in> set (collect_results session yielded user_slugs)"
      using mem by simp
  qed
  show ?thesis using len ms keys failed by (simp add: collect_results_def)
qed

theorem every_key_resolves_once_witness:
  "mset (collect_results sample_net [3, 2, 0, 1] [''ann'', ''bob'', ''cy'', ''eve'']) =
     mset [[(''user_slug'', JStr ''ann''), (''username'', JStr []), (''school'', JStr [])],
           [(''user_slug'', JStr ''bob''), (''username'', JStr ''Bob''), (''school'', JStr ''MIT'')],
           [(''user_slug'', JStr ''cy''), (''username'', JStr []), (''school'', JStr [])],
           [(''user_slug'', JStr ''eve''), (''username'', JStr []), (''school'', JStr [])]]
   \<and> [(''user_slug'', JStr ''cy''), (''username'', JStr []), (''school'', JStr [])]
       \<in> set (collect_results sample_net [3, 2, 0, 1] [''ann'', ''bob'', ''cy'', ''eve''])"
proof -
  let ?L = "[''ann'', ''bob'', ''cy'', ''eve'']"
  have h: "mset [3, 2, 0, 1] = mset [0..<length ?L]"
    by (simp add: upt_rec eval_nat_numeral add_mset_commute)
  note t = every_key_resolves_once [OF h, of sample_net]
  have a: "mset (collect_results sample_net [3, 2, 0, 1] ?L) =
           mset (map (\<lambda>i. fetch_user sample_net i (?L ! i)) [0..<length ?L])"
    by (rule t [THEN conjunct2, THEN conjunct1])
  have e: "map (\<lambda>i. fetch_user sample_net i (?L ! i)) [0..<length ?L] =
     [[(''user_slug'', JStr ''ann''), (''username'', JStr []), (''school'', JStr [])],
      [(''user_slug'', JStr ''bob''), (''username'', JStr ''Bob''), (''school'', JStr ''MIT'')],
      [(''user_slug'', JStr ''cy''), (''username'', JStr []), (''school'', JStr [])],
      [(''user_slug'', JStr ''eve''), (''username'', JStr []), (''school'', JStr [])]]"
    by code_simp
  have c: "isl (sample_net 2 (?L ! 2))"
    by (simp add: sample_net_def)
  have "2 < length ?L" by simp
  then have m: "[(''user_slug'', JStr (?L ! 2)), (''username'', JStr []), (''school'', JStr [])]
                 \<in> set (collect_results sample_net [3, 2, 0, 1] ?L)"
    using t [THEN conjunct2, THEN conjunct2, THEN conjunct2, rule_format, of 2] c by blast
  have "?L ! 2 = ''cy''" by simp
  then show ?thesis using a e m by simp
qed

text \<open>
  Claim C3, as the code has it. No list aligned to the input order is built. The
  results are appended in the order in which \<^verbatim>\<open>as_completed\<close> yields the futures,
  an order the script does not control. For the \<open>i\<close>-th submitted slug exactly one
  position of the collected list holds its result, the position at which future
  \<open>i\<close> is yielded; and every entry carries the slug it was fetched for, so an
  entry is matched to its key by its \<^verbatim>\<open>user_slug\<close> field, not by its position.
\<close>

theorem results_follow_yield_order:
  assumes "mset yielded = mset [0..<length user_slugs]"
  shows "(\<forall>i < length user_slugs.
            \<exists>!j. j < length user_slugs \<and> yielded ! j = i
                 \<and> collect_results session yielded user_slugs ! j =
                     fetch_user session i (user_slugs ! i))
       \<and> (\<forall>j < length user_slugs.
            get (collect_results session yielded user_slugs ! j) ''user_slug'' JNull =
              JStr (user_slugs ! (yielded ! j)))"
proof -
  let ?n = "length user_slugs"
  have len: "length yielded = ?n" and dist: "distinct yielded" and set: "set yielded = {0..<?n}"
    using permutation_facts [OF assms] by simp_all
  have one: "\<forall>i < ?n. \<exists>!j. j < ?n \<and> yielded ! j = i
                 \<and> collect_results session yielded user_slugs ! j =
                     fetch_user session i (user_slugs ! i)"
  proof (intro allI impI)
    fix i assume "i < ?n"
    then have "i \<in> set yielded" using set by simp
    then obtain j where j: "j < length yielded" "yielded ! j = i"
      by (auto simp: in_set_conv_nth)
    have here: "collect_results session yielded user_slugs ! j =
                  fetch_user session i (user_slugs ! i)"
      using j by (simp add: collect_results_def)
    have only: "\<And>j'. j' < ?n \<Longrightarrow> yielded ! j' = i \<Longrightarrow> j' = j"
      using j dist len by (metis nth_eq_iff_index_eq)
    show "\<exists>!j. j < ?n \<and> yielded ! j = i
                 \<and> collect_results session yielded user_slugs ! j =
                     fetch_user session i (user_slugs ! i)"
    proof (rule ex1I [of _ j])
      show "j < ?n \<and> yielded ! j = i
            \<and> collect_results session yielded user_slugs ! j =
                fetch_user session i (user_slugs ! i)"
        using j len here by simp
    next
      fix j'
      assume "j' < ?n \<and> yielded ! j' = i
            \<and> collect_results session yielded user_slugs ! j' =
                fetch_user session i (user_slugs ! i)"
      then show "j' = j" using only by blast
    qed
  qed
  have key: "\<forall>j < ?n. get (collect_results session yielded user_slugs ! j) ''user_slug'' JNull =
              JStr (user_slugs ! (yielded ! j))"
    using len by (simp add: collect_results_def fetch_user_key)
  show ?thesis using one key by blast
qed

theorem results_follow_yield_order_witness:
  "get (collect_results sample_net [1, 0] [''ann'', ''bob''] ! 0) ''user_slug'' JNull = JStr ''bob''
   \<and> (\<exists>!j. j < 2 \<and> [1, 0] ! j = (0::nat)
          \<and> collect_results sample_net [1, 0] [''ann'', ''bob''] ! j =
              fetch_user sample_net 0 ''ann'')"
proof -
  let ?L = "[''ann'', ''bob'']"
  have h: "mset [1, 0] = mset [0..<length ?L]"
    by (simp add: upt_rec)
  note t = results_follow_yield_order [OF h, of sample_net]
  have "0 < length ?L" by simp
  then have a: "get (collect_results sample_net [1, 0] ?L ! 0) ''user_slug'' JNull =
        JStr (?L ! ([1, 0] ! 0))"
    using t [THEN conjunct2, rule_format, of 0] by blast
  have "0 < length ?L" by simp
  then have b: "\<exists>!j. j < length ?L \<and> [1, 0] ! j = (0::nat)
          \<and> collect_results sample_net [1, 0] ?L ! j = fetch_user sample_net 0 (?L ! 0)"
    using t [THEN conjunct1, rule_format, of 0] by blast
  show ?thesis using a b by (simp add: numeral_2_eq_2)
qed

text \<open>
  Two slugs whose futures are yielded in the opposite order: the first collected
  entry is not the one of the first slug.
\<close>

theorem results_not_aligned_counterexample:
  "get (collect_results sample_net [1, 0] [''ann'', ''bob''] ! 0) ''user_slug'' JNull
     \<noteq> JStr ([''ann'', ''bob''] ! 0)"
  by code_simp

text \<open>
  Claim C10, at a row whose \<^verbatim>\<open>user_slug\<close> is two spaces. The school fetcher tests
  the field before stripping it: the row passes the test, the empty slug is
  submitted and the table gets a row for it. The detail fetcher strips first and
  skips the row.
\<close>

theorem blank_slug_is_fetched:
  "read_user_slugs [[(''user_slug'', Some ''  '')]] = [[]]
   \<and> process_csv sample_net [0] [[(''user_slug'', Some ''  '')]] =
       Inr (Some \<lparr>header = [''user_slug'', ''username'', ''school''],
                  body = [[JStr [], JStr [], JStr []]]\<rparr>)
   \<and> collect_user_data sample_net [[(''user_slug'', Some ''  '')]] = Inr []"
  by code_simp

section \<open>Properties of the column schema\<close>

lemma fold_union_keys:
  "fold (\<lambda>data all_fieldnames. all_fieldnames \<union> set (keys data)) rs S =
     S \<union> (\<Union>d \<in> set rs. set (keys d))"
  by (induction rs arbitrary: S) auto

lemma set_fieldnames_of: "set (fieldnames_of rs) = (\<Union>d \<in> set rs. set (keys d))"
  by (simp add: fieldnames_of_def fold_union_keys)

lemma sorted_fieldnames_of: "sorted (fieldnames_of rs)"
  by (simp add: fieldnames_of_def)

lemma distinct_fieldnames_of: "distinct (fieldnames_of rs)"
  by (simp add: fieldnames_of_def)

lemma add_new_keys_set:
  "set (fold (\<lambda>k columns. if k \<in> set columns then columns else columns @ [k]) ks cols) =
     set cols \<union> set ks"
  by (induction ks arbitrary: cols) auto

lemma add_new_keys_distinct:
  "distinct cols \<Longrightarrow>
   distinct (fold (\<lambda>k columns. if k \<in> set columns then columns else columns @ [k]) ks cols)"
  by (induction ks arbitrary: cols) auto

lemma spec_first_seen_fold_set:
  "set (fold (\<lambda>record columns.
             fold (\<lambda>k columns. if k \<in> set columns then columns else columns @ [k])
               (keys record) columns) rs cols) = set cols \<union> (\<Union>d \<in> set rs. set (keys d))"
  by (induction rs arbitrary: cols) (auto simp: add_new_keys_set)

lemma spec_first_seen_fold_distinct:
  "distinct cols \<Longrightarrow>
   distinct (fold (\<lambda>record columns.
             fold (\<lambda>k columns. if k \<in> set columns then columns else columns @ [k])
               (keys record) columns) rs cols)"
  by (induction rs arbitrary: cols) (auto simp: add_new_keys_distinct)

lemma set_spec_first_seen_columns:
  "set (spec_first_seen_columns rs) = (\<Union>d \<in> set rs. set (keys d))"
  by (simp add: spec_first_seen_columns_def spec_first_seen_fold_set)

lemma distinct_spec_first_seen_columns: "distinct (spec_first_seen_columns rs)"
  by (simp add: spec_first_seen_columns_def spec_first_seen_fold_distinct)

lemma fieldnames_of_sort_first_seen: "fieldnames_of rs = sort (spec_first_seen_columns rs)"
proof -
  have "fieldnames_of rs = sorted_list_of_set (set (spec_first_seen_columns rs))"
    by (simp add: fieldnames_of_def fold_union_keys set_spec_first_seen_columns)
  also have "\<dots> = sort (remdups (spec_first_seen_columns rs))"
    by (rule sorted_list_of_set_sort_remdups)
  also have "\<dots> = sort (spec_first_seen_columns rs)"
    by (simp add: distinct_remdups_id distinct_spec_first_seen_columns)
  finally show ?thesis .
qed

lemma writerows_total:
  "\<forall>d \<in> set ds. set (keys d) \<subseteq> set fieldnames \<Longrightarrow>
   writerows fieldnames ds = Inr (map (\<lambda>d. map (\<lambda>k. get d k restval) fieldnames) ds)"
  unfolding writerows_def
  by (induction ds) (auto simp: dict_to_list_def)


lemma save_to_csv_header:
  "save_to_csv d =
     Some \<lparr>header = sort (keys d), body = [map (\<lambda>k. get d k restval) (sort (keys d))]\<rparr>"
proof -
  have "\<forall>x \<in> set [d]. set (keys x) \<subseteq> set (sort (keys d))" by simp
  then have "writerows (sort (keys d)) [d] = Inr [map (\<lambda>k. get d k restval) (sort (keys d))]"
    using writerows_total [of "[d]" "sort (keys d)"] by simp
  then show ?thesis by (simp add: save_to_csv_def write_csv_def)
qed

text \<open>
  Claim C2, as the code has it. The header is the union of the field names of all
  records, each once and no name lost when records are added, but in sorted order:
  it is the first-seen column list of the specification, sorted. The single-profile
  writer sorts the keys of its one record in the same way.
\<close>

theorem columns_are_sorted_union:
  "fieldnames_of records = sort (spec_first_seen_columns records)
   \<and> set (fieldnames_of records) = (\<Union>d \<in> set records. set (keys d))
   \<and> sorted (fieldnames_of records) \<and> distinct (fieldnames_of records)
   \<and> set (fieldnames_of records) \<subseteq> set (fieldnames_of (records @ later))
   \<and> map_option header (save_to_csv parsed_data) = Some (sort (keys parsed_data))"
proof -
  have mono: "set (fieldnames_of records) \<subseteq> set (fieldnames_of (records @ later))"
    by (auto simp: set_fieldnames_of)
  have saved: "map_option header (save_to_csv parsed_data) = Some (sort (keys parsed_data))"
    by (simp add: save_to_csv_header)
  show ?thesis
    using fieldnames_of_sort_first_seen [of records] set_fieldnames_of [of records]
      sorted_fieldnames_of [of records] distinct_fieldnames_of [of records] mono saved
    by blast
qed

theorem columns_are_sorted_union_witness:
  "fieldnames_of [[(''rank'', JStr ''1''), (''username'', JStr ''al''), (''user_slug'', JStr ''al'')],
                  [(''rank'', JStr ''2''), (''country'', JStr ''IN'')]]
     = [''country'', ''rank'', ''user_slug'', ''username'']"
proof -
  have "sort (spec_first_seen_columns
          [[(''rank'', JStr ''1''), (''username'', JStr ''al''), (''user_slug'', JStr ''al'')],
           [(''rank'', JStr ''2''), (''country'', JStr ''IN'')]])
        = [''country'', ''rank'', ''user_slug'', ''username'']"
    by code_simp
  then show ?thesis
    using columns_are_sorted_union
      [of "[[(''rank'', JStr ''1''), (''username'', JStr ''al''), (''user_slug'', JStr ''al'')],
            [(''rank'', JStr ''2''), (''country'', JStr ''IN'')]]"]
    by simp
qed

text \<open>
  One record with the scraper's first three columns: the header is sorted, not in
  the order in which the names were first seen.
\<close>

theorem columns_not_first_seen_counterexample:
  "fieldnames_of [[(''rank'', JStr ''1''), (''username'', JStr ''al''), (''user_slug'', JStr ''al'')]]
     \<noteq> spec_first_seen_columns
          [[(''rank'', JStr ''1''), (''username'', JStr ''al''), (''user_slug'', JStr ''al'')]]"
  by code_simp

section \<open>Properties of the bulk detail fetcher\<close>













text \<open>
  The handler of \<^verbatim>\<open>fetch_leetcode_user_data\<close> lets every exception but
  \<^verbatim>\<open>RequestException\<close> through. An answer without data, or a row of the input that
  is short of the \<^verbatim>\<open>user_slug\<close> cell, makes a pass of the loop raise
  \<^verbatim>\<open>AttributeError\<close>; the handler of \<^verbatim>\<open>process_csv_file\<close> prints it and no table is
  saved, whatever rows were collected before.
\<close>

lemma uncaught_exception_saves_nothing:
  "process_csv_file sample_net
     (sample_rows @ [[(''rank'', Some ''5''), (''username'', Some ''eve''), (''user_slug'', Some ''eve'')]])
     = Error AttributeError
   \<and> process_csv_file sample_net
     (sample_rows @ [[(''rank'', Some ''5''), (''username'', None), (''user_slug'', None)]])
     = Error AttributeError"
  by code_simp

end
